theory Spec2Isabelle
  imports Main "HOL-Library.Sublist"
begin

section \<open>Python values used by \<^verbatim>\<open>bot.py\<close>\<close>

text \<open>
  A Python \<^verbatim>\<open>str\<close> is a sequence of Unicode code points; it is modelled as the list
  of its code points, so that \<^verbatim>\<open>strip()\<close> and the non-ASCII literals of the source
  (U+274C, U+1F50D, U+2500, ...) are exact. \<open>ascii\<close> writes an ASCII literal.
\<close>

type_synonym pystr = "nat list"

definition ascii :: "string \<Rightarrow> pystr" where
  "ascii s = map of_char s"

text \<open>
  \<^verbatim>\<open>str.isspace\<close> for one code point, as CPython's \<^verbatim>\<open>_PyUnicode_IsWhitespace\<close>:
  U+0009..000D, U+001C..0020, U+0085, U+00A0, U+1680, U+2000..200A, U+2028, U+2029,
  U+202F, U+205F, U+3000.
\<close>

definition isspace :: "nat \<Rightarrow> bool" where
  "isspace c \<longleftrightarrow>
     (9 \<le> c \<and> c \<le> 13) \<or> (28 \<le> c \<and> c \<le> 32) \<or> c = 133 \<or> c = 160 \<or> c = 5760 \<or>
     (8192 \<le> c \<and> c \<le> 8202) \<or> c = 8232 \<or> c = 8233 \<or> c = 8239 \<or> c = 8287 \<or> c = 12288"

text \<open>\<^verbatim>\<open>s.strip()\<close>: leading and trailing whitespace removed.\<close>

definition strip :: "pystr \<Rightarrow> pystr" where
  "strip s = rev (dropWhile isspace (rev (dropWhile isspace s)))"

text \<open>\<^verbatim>\<open>str(n)\<close> for a Python int: decimal digits, a minus sign when negative.\<close>

function decimal :: "nat \<Rightarrow> pystr" where
  "decimal n = (if n < 10 then [48 + n] else decimal (n div 10) @ [48 + n mod 10])"
  by pat_completeness auto
termination
  by (relation "measure id") auto

definition str_int :: "int \<Rightarrow> pystr" where
  "str_int i = (if i < 0 then 45 # decimal (nat (- i)) else decimal (nat i))"

text \<open>
  What \<^verbatim>\<open>response.json()\<close> returns: \<^verbatim>\<open>None\<close>, \<^verbatim>\<open>bool\<close>, \<^verbatim>\<open>int\<close>, \<^verbatim>\<open>str\<close>,
  \<^verbatim>\<open>list\<close> or \<^verbatim>\<open>dict\<close>. A dict is the list of its items in insertion order, which is
  the order \<^verbatim>\<open>items()\<close> iterates in. JSON numbers with a fraction or an exponent
  (Python floats) are left out of the embedding.
\<close>

datatype json =
    JNull
  | JBool bool
  | JInt int
  | JStr pystr
  | JList "json list"
  | JObj "(pystr \<times> json) list"

text \<open>Python truthiness (\<^verbatim>\<open>not x\<close>, \<^verbatim>\<open>if x:\<close>).\<close>

fun truthy :: "json \<Rightarrow> bool" where
  "truthy JNull = False"
| "truthy (JBool b) = b"
| "truthy (JInt i) = (i \<noteq> 0)"
| "truthy (JStr s) = (s \<noteq> [])"
| "truthy (JList xs) = (xs \<noteq> [])"
| "truthy (JObj kvs) = (kvs \<noteq> [])"

text \<open>\<^verbatim>\<open>d.get(key, default)\<close>.\<close>

definition dict_get :: "(pystr \<times> json) list \<Rightarrow> pystr \<Rightarrow> json \<Rightarrow> json" where
  "dict_get d k dflt = (case map_of d k of None \<Rightarrow> dflt | Some v \<Rightarrow> v)"

text \<open>
  The conversion \<^verbatim>\<open>{x}\<close> of an f-string is \<^verbatim>\<open>str(x)\<close>. It is written out for the
  scalar values. For a list or a dict Python prints the \<^verbatim>\<open>repr\<close> of the elements,
  whose escaping depends on the Unicode database; that text is the parameter \<open>cs\<close>.
\<close>

fun fmt :: "(json \<Rightarrow> pystr) \<Rightarrow> json \<Rightarrow> pystr" where
  "fmt cs JNull = ascii ''None''"
| "fmt cs (JBool b) = (if b then ascii ''True'' else ascii ''False'')"
| "fmt cs (JInt i) = str_int i"
| "fmt cs (JStr s) = s"
| "fmt cs (JList xs) = cs (JList xs)"
| "fmt cs (JObj kvs) = cs (JObj kvs)"

text \<open>
  The exceptions the code can meet: \<^verbatim>\<open>.get\<close> or \<^verbatim>\<open>.items\<close> on a value that is not a
  dict, iteration over a value that is not iterable, a failure of \<^verbatim>\<open>requests.post\<close>
  (connection, timeout) and a body that \<^verbatim>\<open>response.json()\<close> cannot parse; the last two
  carry their detail text.
\<close>

datatype exn =
    AttributeError
  | TypeError
  | RequestException pystr
  | JSONDecodeError pystr

section \<open>The bot object\<close>

text \<open>
  \<^verbatim>\<open>API_URL = os.environ.get("API_URL", "https://your-universal-api.com/search")\<close>,
  \<^verbatim>\<open>API_KEY = os.environ.get("API_KEY", "YOUR_API_KEY_HERE")\<close>, and
  \<^verbatim>\<open>DataSearchBot.__init__\<close> copies both into the one bot object.
\<close>

record DataSearchBot =
  api_url :: pystr
  api_key :: pystr

definition API_KEY_default :: pystr where
  "API_KEY_default = ascii ''YOUR_API_KEY_HERE''"

definition API_URL_default :: pystr where
  "API_URL_default = ascii ''https://your-universal-api.com/search''"

definition environ_get :: "pystr option \<Rightarrow> pystr \<Rightarrow> pystr" where
  "environ_get v dflt = (case v of None \<Rightarrow> dflt | Some s \<Rightarrow> s)"

definition init :: "pystr option \<Rightarrow> pystr option \<Rightarrow> DataSearchBot" where
  "init env_API_URL env_API_KEY =
     \<lparr>api_url = environ_get env_API_URL API_URL_default,
      api_key = environ_get env_API_KEY API_KEY_default\<rparr>"

section \<open>\<^verbatim>\<open>format_api_response\<close>\<close>

definition no_results_text :: "pystr \<Rightarrow> pystr" where
  \<comment> \<open>\<^verbatim>\<open>f"\U0001F50D No results found for: {query}"\<close>\<close>
  "no_results_text query = [0x1F50D] @ ascii '' No results found for: '' @ query"

definition results_header :: "pystr \<Rightarrow> pystr" where
  \<comment> \<open>\<^verbatim>\<open>f"\U0001F50D Results for: {query}\n\n"\<close>\<close>
  "results_header query = [0x1F50D] @ ascii '' Results for: '' @ query @ [10, 10]"

definition type_line :: "pystr \<Rightarrow> pystr" where
  \<comment> \<open>\<^verbatim>\<open>f"\U0001F4CB Type: {t}\n"\<close>\<close>
  "type_line t = [0x1F4CB] @ ascii '' Type: '' @ t @ [10]"

definition value_line :: "pystr \<Rightarrow> pystr" where
  \<comment> \<open>\<^verbatim>\<open>f"\U0001F50E Value: {v}\n"\<close>\<close>
  "value_line v = [0x1F50E] @ ascii '' Value: '' @ v @ [10]"

definition detail_line :: "pystr \<Rightarrow> pystr \<Rightarrow> pystr" where
  \<comment> \<open>\<^verbatim>\<open>f"  - {k}: {val}\n"\<close>\<close>
  "detail_line k val = ascii ''  - '' @ k @ ascii '': '' @ val @ [10]"

definition divider :: pystr where
  \<comment> \<open>\<^verbatim>\<open>"\u2500" * 30 + "\n\n"\<close>\<close>
  "divider = replicate 30 0x2500 @ [10, 10]"

definition found_line :: "nat \<Rightarrow> pystr" where
  \<comment> \<open>\<^verbatim>\<open>f"\U0001F4CA Found {len(results)} results.\<close>, the first line of the last literal\<close>
  "found_line n = [0x1F4CA] @ ascii '' Found '' @ decimal n @ ascii '' results.''"

definition credit_line :: pystr where
  \<comment> \<open>\<^verbatim>\<open>\U0001F534 *Credit by Smart Sunny*\<close>, the last line of the last literal\<close>
  "credit_line = [0x1F534] @ ascii '' *Credit by Smart Sunny*''"

text \<open>The inner loop \<^verbatim>\<open>for k, val in details.items(): text += ...\<close>.\<close>

fun details_loop :: "(json \<Rightarrow> pystr) \<Rightarrow> (pystr \<times> json) list \<Rightarrow> pystr \<Rightarrow> pystr" where
  "details_loop cs [] text = text"
| "details_loop cs ((k, val) # rest) text =
     details_loop cs rest (text @ detail_line k (fmt cs val))"

text \<open>
  One pass through the body of \<^verbatim>\<open>for r in results\<close>. \<^verbatim>\<open>r.get\<close> raises
  \<^verbatim>\<open>AttributeError\<close> unless \<^verbatim>\<open>r\<close> is a dict, and so does \<^verbatim>\<open>details.items()\<close> on a
  truthy value that is not a dict.
\<close>

definition finding_body :: "(json \<Rightarrow> pystr) \<Rightarrow> json \<Rightarrow> pystr \<Rightarrow> exn + pystr" where
  "finding_body cs r text =
     (case r of
        JObj f \<Rightarrow>
          (let t = dict_get f (ascii ''type'') (JStr (ascii ''Unknown''));
               v = dict_get f (ascii ''value'') (JStr (ascii ''N/A''));
               text1 = text @ type_line (fmt cs t);
               text2 = text1 @ value_line (fmt cs v);
               details = dict_get f (ascii ''details'') (JObj [])
           in if truthy details
              then (case details of
                      JObj d \<Rightarrow> Inr (details_loop cs d text2 @ divider)
                    | _ \<Rightarrow> Inl AttributeError)
              else Inr (text2 @ divider))
      | _ \<Rightarrow> Inl AttributeError)"

fun results_loop :: "(json \<Rightarrow> pystr) \<Rightarrow> json list \<Rightarrow> pystr \<Rightarrow> exn + pystr" where
  "results_loop cs [] text = Inr text"
| "results_loop cs (r # rs) text =
     (case finding_body cs r text of
        Inl e \<Rightarrow> Inl e
      | Inr text' \<Rightarrow> results_loop cs rs text')"

text \<open>
  \<^verbatim>\<open>for r in results\<close> over a truthy value: a list gives its elements; a non-empty
  string gives one-character strings and a non-empty dict its keys, on which
  \<^verbatim>\<open>r.get\<close> raises \<^verbatim>\<open>AttributeError\<close>; \<^verbatim>\<open>True\<close> and a non-zero number are not
  iterable.
\<close>

definition format_api_response ::
  "(json \<Rightarrow> pystr) \<Rightarrow> DataSearchBot \<Rightarrow> json \<Rightarrow> pystr \<Rightarrow> exn + pystr" where
  "format_api_response cs self data query =
     (case data of
        JObj d \<Rightarrow>
          (let results = dict_get d (ascii ''results'') (JList []) in
           if \<not> truthy results then Inr (no_results_text query)
           else (case results of
                   JList rs \<Rightarrow>
                     (case results_loop cs rs (results_header query) of
                        Inl e \<Rightarrow> Inl e
                      | Inr text \<Rightarrow>
                          Inr (text @ found_line (length rs) @ [10, 10] @ credit_line))
                 | JStr _ \<Rightarrow> Inl AttributeError
                 | JObj _ \<Rightarrow> Inl AttributeError
                 | _ \<Rightarrow> Inl TypeError))
      | _ \<Rightarrow> Inl AttributeError)"

section \<open>\<^verbatim>\<open>call_universal_api\<close>\<close>

text \<open>
  The one call \<^verbatim>\<open>requests.post(self.api_url, json=payload, headers=headers, timeout=30)\<close>
  with \<^verbatim>\<open>headers = {"Authorization": f"Bearer {self.api_key}", "Content-Type":
  "application/json"}\<close> and \<^verbatim>\<open>payload = {"query": query}\<close>.
\<close>

record request =
  url :: pystr
  authorization :: pystr
  content_type :: pystr
  payload_query :: pystr
  timeout :: nat

text \<open>
  What the network does with a request is an input of the model: \<^verbatim>\<open>requests.post\<close>
  raises, or returns a response with its \<^verbatim>\<open>status_code\<close> and with what
  \<^verbatim>\<open>response.json()\<close> will do (raise, or return the parsed body).
\<close>

datatype http_outcome =
    PostRaises exn
  | Response int "exn + json"

type_synonym transport = "request \<Rightarrow> http_outcome"

text \<open>
  The method returns a string; its effects are the requests it posted and the exceptions
  it passed to \<^verbatim>\<open>logger.error\<close>.
\<close>

record api_result =
  reply :: pystr
  requests :: "request list"
  log :: "exn list"

definition api_request :: "DataSearchBot \<Rightarrow> pystr \<Rightarrow> request" where
  "api_request self query =
     \<lparr>url = api_url self,
      authorization = ascii ''Bearer '' @ api_key self,
      content_type = ascii ''application/json'',
      payload_query = query,
      timeout = 30\<rparr>"

definition not_configured_text :: pystr where
  "not_configured_text = [0x274C] @ ascii '' API not configured. Use /setapi.''"

definition invalid_key_text :: pystr where
  "invalid_key_text = [0x274C] @ ascii '' Invalid API key.''"

definition quota_text :: pystr where
  "quota_text = [0x274C] @ ascii '' API quota exceeded.''"

definition api_error_text :: "int \<Rightarrow> pystr" where
  \<comment> \<open>\<^verbatim>\<open>f"\u274C API error: {response.status_code}"\<close>\<close>
  "api_error_text status_code = [0x274C] @ ascii '' API error: '' @ str_int status_code"

definition error_contacting_text :: pystr where
  "error_contacting_text = [0x274C] @ ascii '' Error contacting API.''"

text \<open>The \<^verbatim>\<open>except Exception as e\<close> branch: log the exception, return the fixed text.\<close>

definition except_branch :: "request \<Rightarrow> exn \<Rightarrow> api_result" where
  "except_branch req e = \<lparr>reply = error_contacting_text, requests = [req], log = [e]\<rparr>"

definition call_universal_api ::
  "(json \<Rightarrow> pystr) \<Rightarrow> transport \<Rightarrow> DataSearchBot \<Rightarrow> pystr \<Rightarrow> api_result" where
  "call_universal_api cs post self query =
     (if api_key self = [] \<or> api_key self = ascii ''YOUR_API_KEY_HERE''
      then \<lparr>reply = not_configured_text, requests = [], log = []\<rparr>
      else
        (let req = api_request self query in
         case post req of
           PostRaises e \<Rightarrow> except_branch req e
         | Response status_code body \<Rightarrow>
             if status_code = 200 then
               (case body of
                  Inl e \<Rightarrow> except_branch req e
                | Inr data \<Rightarrow>
                    (case format_api_response cs self data query of
                       Inl e \<Rightarrow> except_branch req e
                     | Inr text \<Rightarrow> \<lparr>reply = text, requests = [req], log = []\<rparr>))
             else if status_code = 401 then
               \<lparr>reply = invalid_key_text, requests = [req], log = []\<rparr>
             else if status_code = 402 then
               \<lparr>reply = quota_text, requests = [req], log = []\<rparr>
             else
               \<lparr>reply = api_error_text status_code, requests = [req], log = []\<rparr>))"

section \<open>The handlers\<close>

text \<open>
  \<^verbatim>\<open>SEARCH, API_SETUP = range(2)\<close>; \<^verbatim>\<open>ConversationHandler.END\<close> is \<open>-1\<close> in
  python-telegram-bot.
\<close>

definition SEARCH :: int where "SEARCH = 0"
definition API_SETUP :: int where "API_SETUP = 1"
definition END :: int where "END = - 1"

text \<open>
  What a handler sends: \<^verbatim>\<open>update.message.reply_text(text)\<close>, plain, with
  \<^verbatim>\<open>parse_mode="Markdown"\<close> or with \<^verbatim>\<open>reply_markup=ReplyKeyboardRemove()\<close>, and
  \<^verbatim>\<open>context.bot.send_chat_action(chat_id, action)\<close>. Both go to the chat of the update.
  Sending is taken to succeed.
\<close>

datatype reply_option = Plain | Markdown | RemoveKeyboard

datatype outbound =
    Reply pystr reply_option
  | ChatAction pystr

text \<open>
  A handler run: the bot object afterwards, what was sent in order, the requests
  posted, what was logged, and the value returned (\<open>None\<close> for Python's \<^verbatim>\<open>None\<close>).
\<close>

record outcome =
  bot_after :: DataSearchBot
  sent :: "outbound list"
  posted :: "request list"
  logged :: "exn list"
  returned :: "int option"

definition welcome_text :: pystr where
  "welcome_text =
     [0x1F44B] @ ascii '' Welcome to *OSINT Bot*'' @ [10, 10] @
     ascii ''You can search leaked data by:'' @
     [10, 0x1F4E7] @ ascii '' Email / domain'' @
     [10, 0x1F464] @ ascii '' Name / Nickname'' @
     [10, 0x1F4F1] @ ascii '' Phone'' @
     [10, 0x1F511] @ ascii '' Password'' @
     [10, 0x1F697] @ ascii '' Car number / VIN'' @
     [10, 0x2708] @ ascii '' Telegram / FB / VK / IG account'' @
     [10, 0x1F4CD] @ ascii '' IP'' @
     [10, 10, 0x1F4C3] @
     ascii '' You can also send multiple queries (each on a new line).'' @
     [10, 10, 0x1F534] @ ascii '' *Credit by Smart Sunny*''"

definition help_text :: pystr where
  "help_text =
     [0x1F916] @ ascii '' **Bot Commands:**'' @ [10, 10] @
     ascii ''/start - Start bot'' @ [10] @
     ascii ''/help - Show help'' @ [10] @
     ascii ''/search - Start new search'' @ [10] @
     ascii ''/setapi - Configure API key'' @ [10] @
     ascii ''/cancel - Cancel current operation'' @
     [10, 10, 0x2705] @ ascii '' Example searches:'' @
     [10, 96] @ ascii ''example@gmail.com'' @
     [96, 10, 96] @ ascii ''+79002206090'' @
     [96, 10, 96] @ ascii ''127.0.0.1'' @
     [96, 10, 96] @ ascii ''Petrov Maxim'' @
     [96, 10, 96] @ ascii ''O999'' @ [0x41C, 0x423] @ ascii ''777'' @
     [96, 10, 96] @ ascii ''123qwe'' @
     [96, 10, 10, 0x1F4C3] @
     ascii '' Mass Search: send multiple queries, one per line.''"

definition search_prompt :: pystr where
  "search_prompt =
     [0x1F50D] @ ascii '' Please enter your query:'' @ [10, 10] @
     ascii ''You can enter email, phone, IP, VIN, username, etc.'' @
     [10, 0x1F449] @ ascii '' Multiple queries? Send them line by line.''"

definition cancelled_text :: pystr where
  "cancelled_text = [0x274C] @ ascii '' Operation cancelled.''"

definition setup_prompt :: pystr where
  "setup_prompt = ascii ''Please send your API key:''"

definition key_updated_text :: pystr where
  "key_updated_text = [0x2705] @ ascii '' API key updated successfully!''"

text \<open>
  Each handler takes the bot object and the text of the update's message
  (\<^verbatim>\<open>update.message.text\<close>); the two that search also take the network.
\<close>

definition start :: "DataSearchBot \<Rightarrow> pystr \<Rightarrow> outcome" where
  "start self text =
     \<lparr>bot_after = self, sent = [Reply welcome_text Markdown], posted = [], logged = [],
      returned = None\<rparr>"

definition help_command :: "DataSearchBot \<Rightarrow> pystr \<Rightarrow> outcome" where
  "help_command self text =
     \<lparr>bot_after = self, sent = [Reply help_text Markdown], posted = [], logged = [],
      returned = None\<rparr>"

definition search :: "DataSearchBot \<Rightarrow> pystr \<Rightarrow> outcome" where
  "search self text =
     \<lparr>bot_after = self, sent = [Reply search_prompt Plain], posted = [], logged = [],
      returned = Some SEARCH\<rparr>"

definition perform_search ::
  "(json \<Rightarrow> pystr) \<Rightarrow> transport \<Rightarrow> DataSearchBot \<Rightarrow> pystr \<Rightarrow> outcome" where
  "perform_search cs post self text =
     (let query = strip text;
          result = call_universal_api cs post self query
      in \<lparr>bot_after = self,
          sent = [ChatAction (ascii ''typing''), Reply (reply result) Plain],
          posted = requests result, logged = log result,
          returned = Some END\<rparr>)"

definition handle_message ::
  "(json \<Rightarrow> pystr) \<Rightarrow> transport \<Rightarrow> DataSearchBot \<Rightarrow> pystr \<Rightarrow> outcome" where
  "handle_message cs post self text =
     (let query = strip text;
          result = call_universal_api cs post self query
      in \<lparr>bot_after = self,
          sent = [ChatAction (ascii ''typing''), Reply (reply result) Plain],
          posted = requests result, logged = log result,
          returned = None\<rparr>)"

definition cancel :: "DataSearchBot \<Rightarrow> pystr \<Rightarrow> outcome" where
  "cancel self text =
     \<lparr>bot_after = self, sent = [Reply cancelled_text RemoveKeyboard], posted = [],
      logged = [], returned = Some END\<rparr>"

definition setup_api :: "DataSearchBot \<Rightarrow> pystr \<Rightarrow> outcome" where
  "setup_api self text =
     \<lparr>bot_after = self, sent = [Reply setup_prompt Plain], posted = [], logged = [],
      returned = Some API_SETUP\<rparr>"

definition save_api_key :: "DataSearchBot \<Rightarrow> pystr \<Rightarrow> outcome" where
  "save_api_key self text =
     \<lparr>bot_after = self\<lparr>api_key := strip text\<rparr>,
      sent = [Reply key_updated_text Plain], posted = [], logged = [],
      returned = Some END\<rparr>"

section \<open>Routing: \<^verbatim>\<open>main\<close>\<close>

text \<open>
  \<^verbatim>\<open>main\<close> registers five handlers with one python-telegram-bot \<^verbatim>\<open>Application\<close>;
  the routing itself is the library's. What is modelled of it:
  \<^item> an update is a new text message of a user in a chat; Telegram marks it as a
    command (the text starts with \<^verbatim>\<open>/name\<close>; \<open>Command name text\<close>) or not
    (\<open>Text text\<close>);
  \<^item> \<^verbatim>\<open>CommandHandler(name, f)\<close> accepts the commands called \<open>name\<close>, and
    \<^verbatim>\<open>MessageHandler(filters.TEXT & ~filters.COMMAND, f)\<close> the non-empty texts that are
    not commands;
  \<^item> the application offers an update to its handlers in the order they were added
    (they are all in one group) and only the first that accepts it runs;
  \<^item> a \<^verbatim>\<open>ConversationHandler\<close> keeps one state per (chat, user). With no state it
    offers the update to its entry points; with a state, to the handlers of that state
    and then to its fallbacks (\<^verbatim>\<open>allow_reentry\<close> is off by default, so the entry points
    are not tried again); when none accepts, the conversation handler does not accept
    the update. The value the callback returns becomes the state: \<^verbatim>\<open>END\<close> removes
    it, \<^verbatim>\<open>None\<close> leaves it as it is.
\<close>

datatype message =
    Command pystr pystr
  | Text pystr

fun message_text :: "message \<Rightarrow> pystr" where
  "message_text (Command name text) = text"
| "message_text (Text text) = text"

record Update =
  chat_id :: int
  user_id :: int
  message :: message

type_synonym session = "int \<times> int"

definition session_of :: "Update \<Rightarrow> session" where
  "session_of update = (chat_id update, user_id update)"

datatype callback =
    Start
  | Help
  | Search
  | PerformSearch
  | HandleMessage
  | Cancel
  | SetupApi
  | SaveApiKey

text \<open>Calling the bound method \<^verbatim>\<open>bot.f\<close> a handler was built with.\<close>

fun invoke ::
  "(json \<Rightarrow> pystr) \<Rightarrow> transport \<Rightarrow> callback \<Rightarrow> DataSearchBot \<Rightarrow> pystr \<Rightarrow> outcome" where
  "invoke cs post Start self text = start self text"
| "invoke cs post Help self text = help_command self text"
| "invoke cs post Search self text = search self text"
| "invoke cs post PerformSearch self text = perform_search cs post self text"
| "invoke cs post HandleMessage self text = handle_message cs post self text"
| "invoke cs post Cancel self text = cancel self text"
| "invoke cs post SetupApi self text = setup_api self text"
| "invoke cs post SaveApiKey self text = save_api_key self text"

datatype handler =
    CommandHandler pystr callback
  | MessageHandler callback

fun callback_of :: "handler \<Rightarrow> callback" where
  "callback_of (CommandHandler name f) = f"
| "callback_of (MessageHandler f) = f"

fun check_update :: "handler \<Rightarrow> message \<Rightarrow> bool" where
  "check_update (CommandHandler name f) (Command name' text) = (name = name')"
| "check_update (CommandHandler name f) (Text text) = False"
| "check_update (MessageHandler f) (Command name' text) = False"
| "check_update (MessageHandler f) (Text text) = (text \<noteq> [])"

record ConversationHandler =
  entry_points :: "handler list"
  states :: "(int \<times> handler list) list"
  fallbacks :: "handler list"

definition search_conv :: ConversationHandler where
  "search_conv =
     \<lparr>entry_points = [CommandHandler (ascii ''search'') Search],
      states = [(SEARCH, [MessageHandler PerformSearch])],
      fallbacks = [CommandHandler (ascii ''cancel'') Cancel]\<rparr>"

definition api_conv :: ConversationHandler where
  "api_conv =
     \<lparr>entry_points = [CommandHandler (ascii ''setapi'') SetupApi],
      states = [(API_SETUP, [MessageHandler SaveApiKey])],
      fallbacks = [CommandHandler (ascii ''cancel'') Cancel]\<rparr>"

text \<open>\<^verbatim>\<open>ConversationHandler.check_update\<close>: the handler that takes the update, if any.\<close>

definition conv_check_update ::
  "ConversationHandler \<Rightarrow> int option \<Rightarrow> message \<Rightarrow> handler option" where
  "conv_check_update conv state m =
     (case state of
        None \<Rightarrow> find (\<lambda>h. check_update h m) (entry_points conv)
      | Some s \<Rightarrow>
          (case find (\<lambda>h. check_update h m)
                  (case map_of (states conv) s of None \<Rightarrow> [] | Some hs \<Rightarrow> hs) of
             Some h \<Rightarrow> Some h
           | None \<Rightarrow> find (\<lambda>h. check_update h m) (fallbacks conv)))"

text \<open>The state of a conversation after its callback returned \<open>new_state\<close>.\<close>

definition update_state ::
  "(session \<Rightarrow> int option) \<Rightarrow> session \<Rightarrow> int option \<Rightarrow> (session \<Rightarrow> int option)" where
  "update_state conversations key new_state =
     (case new_state of
        None \<Rightarrow> conversations
      | Some s \<Rightarrow> if s = END then conversations(key := None)
                  else conversations(key := Some s))"

text \<open>
  The running application: the one \<^verbatim>\<open>DataSearchBot\<close> object that \<^verbatim>\<open>main\<close> creates and
  whose bound methods every handler calls, and the conversation states kept by the two
  conversation handlers.
\<close>

record system =
  bot_obj :: DataSearchBot
  search_states :: "session \<Rightarrow> int option"
  api_states :: "session \<Rightarrow> int option"

definition initial :: "pystr option \<Rightarrow> pystr option \<Rightarrow> system" where
  "initial env_API_URL env_API_KEY =
     \<lparr>bot_obj = init env_API_URL env_API_KEY,
      search_states = (\<lambda>key. None),
      api_states = (\<lambda>key. None)\<rparr>"

text \<open>
  Which registered handler takes an update, in the order of the \<^verbatim>\<open>add_handler\<close> calls:
  \<^verbatim>\<open>start\<close>, \<^verbatim>\<open>help\<close>, \<^verbatim>\<open>search_conv\<close>, \<^verbatim>\<open>api_conv\<close>, then the plain message
  handler.
\<close>

datatype route =
    Direct callback
  | InSearchConv callback
  | InApiConv callback

fun route_callback :: "route \<Rightarrow> callback" where
  "route_callback (Direct f) = f"
| "route_callback (InSearchConv f) = f"
| "route_callback (InApiConv f) = f"

definition route_of :: "system \<Rightarrow> Update \<Rightarrow> route option" where
  "route_of sys update =
     (let m = message update; key = session_of update in
      if check_update (CommandHandler (ascii ''start'') Start) m then Some (Direct Start)
      else if check_update (CommandHandler (ascii ''help'') Help) m then Some (Direct Help)
      else
        (case conv_check_update search_conv (search_states sys key) m of
           Some h \<Rightarrow> Some (InSearchConv (callback_of h))
         | None \<Rightarrow>
             (case conv_check_update api_conv (api_states sys key) m of
                Some h \<Rightarrow> Some (InApiConv (callback_of h))
              | None \<Rightarrow>
                  if check_update (MessageHandler HandleMessage) m
                  then Some (Direct HandleMessage)
                  else None)))"

text \<open>
  \<^verbatim>\<open>Application.process_update\<close>: run the callback of the handler that takes the
  update; a conversation handler then stores the returned state. The result is the
  application afterwards and what the callback did, or \<open>None\<close> when no handler took
  the update.
\<close>

definition process_update ::
  "(json \<Rightarrow> pystr) \<Rightarrow> transport \<Rightarrow> system \<Rightarrow> Update \<Rightarrow> system \<times> outcome option" where
  "process_update cs post sys update =
     (case route_of sys update of
        None \<Rightarrow> (sys, None)
      | Some r \<Rightarrow>
          (let out = invoke cs post (route_callback r) (bot_obj sys)
                       (message_text (message update));
               key = session_of update;
               sys1 = sys\<lparr>bot_obj := bot_after out\<rparr>
           in (case r of
                 Direct f \<Rightarrow> sys1
               | InSearchConv f \<Rightarrow>
                   sys1\<lparr>search_states := update_state (search_states sys) key (returned out)\<rparr>
               | InApiConv f \<Rightarrow>
                   sys1\<lparr>api_states := update_state (api_states sys) key (returned out)\<rparr>,
               Some out)))"

text \<open>Updates handled one after the other, each with the network as it is at that time.\<close>

fun run :: "(json \<Rightarrow> pystr) \<Rightarrow> system \<Rightarrow> (Update \<times> transport) list \<Rightarrow> system" where
  "run cs sys [] = sys"
| "run cs sys ((update, post) # rest) = run cs (fst (process_update cs post sys update)) rest"

section \<open>Notions used in the statements\<close>

text \<open>
  The guard of \<^verbatim>\<open>call_universal_api\<close>,
  \<^verbatim>\<open>if not self.api_key or self.api_key == "YOUR_API_KEY_HERE"\<close>, decides whether a key
  counts as configured: it is neither empty nor the placeholder.
\<close>

definition configured :: "DataSearchBot \<Rightarrow> bool" where
  "configured self \<longleftrightarrow> \<not> (api_key self = [] \<or> api_key self = ascii ''YOUR_API_KEY_HERE'')"

text \<open>
  The text the formatter appends for one finding: its type line, its value line, one
  line per item of its details, and the divider.
\<close>

definition detail_lines :: "(json \<Rightarrow> pystr) \<Rightarrow> (pystr \<times> json) list \<Rightarrow> pystr" where
  "detail_lines cs d = concat (map (\<lambda>(k, val). detail_line k (fmt cs val)) d)"

definition finding_block :: "(json \<Rightarrow> pystr) \<Rightarrow> json \<Rightarrow> pystr" where
  "finding_block cs r =
     (case r of
        JObj f \<Rightarrow>
          type_line (fmt cs (dict_get f (ascii ''type'') (JStr (ascii ''Unknown'')))) @
          value_line (fmt cs (dict_get f (ascii ''value'') (JStr (ascii ''N/A'')))) @
          (case dict_get f (ascii ''details'') (JObj []) of
             JObj d \<Rightarrow> detail_lines cs d
           | _ \<Rightarrow> []) @
          divider
      | _ \<Rightarrow> [])"

text \<open>
  A finding the formatter renders without an exception: a dict whose \<^verbatim>\<open>details\<close>, when
  present and truthy, is a dict.
\<close>

definition finding_ok :: "json \<Rightarrow> bool" where
  "finding_ok r =
     (case r of
        JObj f \<Rightarrow>
          (case dict_get f (ascii ''details'') (JObj []) of
             JObj d \<Rightarrow> True
           | x \<Rightarrow> \<not> truthy x)
      | _ \<Rightarrow> False)"

definition last_line :: "pystr \<Rightarrow> pystr" where
  "last_line s = rev (takeWhile (\<lambda>c. c \<noteq> 10) (rev s))"

text \<open>
  A session is idle when neither conversation handler holds a state for it. The three
  situations in which a session is in at most one conversation: idle, waiting for a
  query only, waiting for a key only.
\<close>

definition idle :: "system \<Rightarrow> session \<Rightarrow> bool" where
  "idle sys key \<longleftrightarrow> search_states sys key = None \<and> api_states sys key = None"

definition awaiting_search_only :: "system \<Rightarrow> session \<Rightarrow> bool" where
  "awaiting_search_only sys key \<longleftrightarrow>
     search_states sys key = Some SEARCH \<and> api_states sys key = None"

definition awaiting_api_key_only :: "system \<Rightarrow> session \<Rightarrow> bool" where
  "awaiting_api_key_only sys key \<longleftrightarrow>
     search_states sys key = None \<and> api_states sys key = Some API_SETUP"

definition in_one_state :: "system \<Rightarrow> session \<Rightarrow> bool" where
  "in_one_state sys key \<longleftrightarrow>
     idle sys key \<or> awaiting_search_only sys key \<or> awaiting_api_key_only sys key"

text \<open>The handlers that finish an operation.\<close>

fun terminal :: "callback \<Rightarrow> bool" where
  "terminal PerformSearch = True"
| "terminal SaveApiKey = True"
| "terminal Cancel = True"
| "terminal HandleMessage = True"
| "terminal Start = False"
| "terminal Help = False"
| "terminal Search = False"
| "terminal SetupApi = False"

text \<open>No update of the list is routed to \<^verbatim>\<open>save_api_key\<close>.\<close>

fun no_key_saved :: "(json \<Rightarrow> pystr) \<Rightarrow> system \<Rightarrow> (Update \<times> transport) list \<Rightarrow> bool" where
  "no_key_saved cs sys [] = True"
| "no_key_saved cs sys ((update, post) # rest) =
     (route_of sys update \<noteq> Some (InApiConv SaveApiKey) \<and>
      no_key_saved cs (fst (process_update cs post sys update)) rest)"

text \<open>The concrete values of the examples.\<close>

definition example_bot :: DataSearchBot where
  "example_bot = \<lparr>api_url = ascii ''https://api.example/search'', api_key = ascii ''k1''\<rparr>"

definition example_finding :: json where
  "example_finding =
     JObj [(ascii ''type'', JStr (ascii ''email'')),
           (ascii ''value'', JStr (ascii ''test@example.com'')),
           (ascii ''details'', JObj [(ascii ''source'', JStr (ascii ''leak1''))])]"

definition no_containers :: "json \<Rightarrow> pystr" where
  "no_containers x = []"

definition answers :: "int \<Rightarrow> transport" where
  "answers status_code req = Response status_code (Inr (JObj []))"

definition says :: "int \<Rightarrow> int \<Rightarrow> message \<Rightarrow> Update" where
  "says c u m = \<lparr>chat_id = c, user_id = u, message = m\<rparr>"

definition command :: "string \<Rightarrow> message" where
  "command name = Command (ascii name) (47 # ascii name)"

section \<open>Evaluation and loop lemmas\<close>

text \<open>
  The equations by which concrete strings, routes and handler runs are computed, and
  the closed forms of the two loops of the formatter.
\<close>

lemma ascii_simps:
  "ascii [] = []" "ascii (c # s) = of_char c # ascii s"
  by (simp_all add: ascii_def)

lemmas routing_defs =
  process_update_def route_of_def Let_def conv_check_update_def search_conv_def api_conv_def
  update_state_def SEARCH_def API_SETUP_def END_def session_of_def ascii_simps

lemmas handler_defs =
  start_def help_command_def search_def perform_search_def handle_message_def cancel_def
  setup_api_def save_api_key_def

lemmas state_defs =
  idle_def awaiting_search_only_def awaiting_api_key_only_def in_one_state_def

lemmas example_defs =
  initial_def init_def environ_get_def says_def command_def answers_def no_containers_def
  example_bot_def example_finding_def API_KEY_default_def API_URL_default_def

lemmas api_defs =
  call_universal_api_def api_request_def except_branch_def not_configured_text_def
  invalid_key_text_def quota_text_def api_error_text_def error_contacting_text_def
  strip_def isspace_def str_int_def

lemmas format_defs =
  format_api_response_def dict_get_def finding_body_def no_results_text_def results_header_def
  type_line_def value_line_def detail_line_def divider_def found_line_def credit_line_def

lemma details_loop_eq: "details_loop cs d acc = acc @ detail_lines cs d"
  by (induction d arbitrary: acc) (auto simp: detail_lines_def)

lemma finding_body_ok:
  "finding_ok r \<Longrightarrow> finding_body cs r acc = Inr (acc @ finding_block cs r)"
  by (cases r)
     (auto simp: finding_ok_def finding_body_def finding_block_def details_loop_eq Let_def
                 detail_lines_def split: json.splits)

lemma results_loop_ok:
  "list_all finding_ok rs \<Longrightarrow>
   results_loop cs rs acc = Inr (acc @ concat (map (finding_block cs) rs))"
  by (induction rs arbitrary: acc) (simp_all add: finding_body_ok)

lemma finding_block_fields:
  "finding_block cs
     (JObj [(ascii ''type'', JStr t), (ascii ''value'', JStr v), (ascii ''details'', JObj d)]) =
     type_line t @ value_line v @ detail_lines cs d @ divider"
  by (simp add: finding_block_def dict_get_def ascii_simps)

section \<open>The formatter\<close>

text \<open>
  C9: \<^verbatim>\<open>format_api_response\<close> is a function of its \<open>data\<close> and \<open>query\<close> arguments
  alone: whatever the bot object holds (its API key, its URL), the same arguments give
  the same text, or the same exception.
\<close>

theorem format_api_response_pure:
  "format_api_response cs self data query = format_api_response cs self' data query"
  by (simp add: format_api_response_def)

text \<open>
  C4, as the code has it: for every query, a response whose \<^verbatim>\<open>results\<close> is the empty
  list (or is absent) is rendered as exactly U+1F50D, a space and
  \<^verbatim>\<open>No results found for: \<close> followed by the query.
\<close>

theorem format_api_response_empty:
  "dict_get d (ascii ''results'') (JList []) = JList [] \<Longrightarrow>
   format_api_response cs self (JObj d) query =
     Inr ([0x1F50D] @ ascii '' No results found for: '' @ query)"
  by (simp add: format_api_response_def no_results_text_def)

text \<open>
  The empty result set for the query \<^verbatim>\<open>q\<close>.
\<close>

theorem format_api_response_empty_witness:
  "dict_get [(ascii ''results'', JList [])] (ascii ''results'') (JList []) = JList [] \<and>
   format_api_response no_containers example_bot (JObj [(ascii ''results'', JList [])])
       (ascii ''q'') =
     Inr ([0x1F50D] @ ascii '' No results found for: q'')"
proof -
  have h: "dict_get [(ascii ''results'', JList [])] (ascii ''results'') (JList []) = JList []"
    by (simp add: dict_get_def)
  show ?thesis
    using h format_api_response_empty [OF h, of no_containers example_bot "ascii ''q''"]
    by (simp add: ascii_simps)
qed

text \<open>
  C4 as stated fails: the text for the query \<^verbatim>\<open>q\<close> is not the string
  \<^verbatim>\<open>no results found for: q\<close>; it starts with U+1F50D and a space, and \<^verbatim>\<open>No\<close> is
  capitalised.
\<close>

theorem format_api_response_empty_not_verbatim:
  "format_api_response no_containers example_bot (JObj [(ascii ''results'', JList [])])
       (ascii ''q'') \<noteq>
     Inr (ascii ''no results found for: q'')"
  by (simp add: format_api_response_def dict_get_def no_results_text_def ascii_simps)

text \<open>
  C6, as the code has it: for a non-empty list of findings that are dicts (with a dict,
  or nothing truthy, under \<^verbatim>\<open>details\<close>), the text is the header
  \<^verbatim>\<open>\U0001F50D Results for: {query}\<close> and an empty line; then for each finding, in order,
  its block: the line \<^verbatim>\<open>\U0001F4CB Type: {type}\<close>, the line \<^verbatim>\<open>\U0001F50E Value: {value}\<close>, one
  line \<^verbatim>\<open>  - {key}: {value}\<close> per item of its details, a divider of thirty U+2500 and
  an empty line (the divider follows every block, the last one too); then the line
  \<^verbatim>\<open>\U0001F4CA Found {n} results.\<close> with the number of findings, an empty line, and the
  fixed line \<^verbatim>\<open>\U0001F534 *Credit by Smart Sunny*\<close>, which ends the text.
\<close>

theorem format_api_response_findings:
  assumes "dict_get d (ascii ''results'') (JList []) = JList rs"
    and "rs \<noteq> []"
    and "list_all finding_ok rs"
  shows "format_api_response cs self (JObj d) query =
     Inr (results_header query @ concat (map (finding_block cs) rs) @
          found_line (length rs) @ [10, 10] @ credit_line)"
  using assms by (simp add: format_api_response_def results_loop_ok)

text \<open>
  One finding of type \<^verbatim>\<open>email\<close> with the detail \<^verbatim>\<open>source: leak1\<close>.
\<close>

theorem format_api_response_findings_witness:
  "dict_get [(ascii ''results'', JList [example_finding])] (ascii ''results'') (JList []) =
     JList [example_finding] \<and>
   [example_finding] \<noteq> [] \<and>
   list_all finding_ok [example_finding] \<and>
   format_api_response no_containers example_bot
       (JObj [(ascii ''results'', JList [example_finding])]) (ascii ''test@example.com'') =
     Inr ([0x1F50D] @ ascii '' Results for: test@example.com'' @ [10, 10] @
          [0x1F4CB] @ ascii '' Type: email'' @ [10] @
          [0x1F50E] @ ascii '' Value: test@example.com'' @ [10] @
          ascii ''  - source: leak1'' @ [10] @
          replicate 30 0x2500 @ [10, 10] @
          [0x1F4CA] @ ascii '' Found 1 results.'' @ [10, 10] @
          [0x1F534] @ ascii '' *Credit by Smart Sunny*'')"
proof -
  have h1: "dict_get [(ascii ''results'', JList [example_finding])] (ascii ''results'')
              (JList []) = JList [example_finding]"
    by (simp add: dict_get_def)
  have h2: "[example_finding] \<noteq> []" by simp
  have h3: "list_all finding_ok [example_finding]"
    by (simp add: finding_ok_def example_finding_def dict_get_def ascii_simps)
  have b: "finding_block no_containers example_finding =
             [0x1F4CB] @ ascii '' Type: email'' @ [10] @
             [0x1F50E] @ ascii '' Value: test@example.com'' @ [10] @
             ascii ''  - source: leak1'' @ [10] @ replicate 30 0x2500 @ [10, 10]"
    by (simp add: finding_block_def example_finding_def dict_get_def detail_lines_def
          type_line_def value_line_def detail_line_def divider_def ascii_simps)
  show ?thesis
    using h1 h2 h3
      format_api_response_findings [OF h1 h2 h3, of no_containers example_bot
        "ascii ''test@example.com''"]
    by (simp add: b results_header_def found_line_def credit_line_def ascii_simps)
qed

text \<open>
  C6 as stated fails: for the same finding and the query \<^verbatim>\<open>q\<close>, the last line of
  the text is the credit line, not the line that gives the count, and the text does not
  start with \<^verbatim>\<open>results for: q\<close>.
\<close>

theorem format_api_response_ends_with_credit:
  "format_api_response no_containers example_bot
       (JObj [(ascii ''results'', JList [example_finding])]) (ascii ''q'') =
     Inr ([0x1F50D] @ ascii '' Results for: q'' @ [10, 10] @
          [0x1F4CB] @ ascii '' Type: email'' @ [10] @
          [0x1F50E] @ ascii '' Value: test@example.com'' @ [10] @
          ascii ''  - source: leak1'' @ [10] @
          replicate 30 0x2500 @ [10, 10] @
          [0x1F4CA] @ ascii '' Found 1 results.'' @ [10, 10] @
          [0x1F534] @ ascii '' *Credit by Smart Sunny*'') \<and>
   last_line ([0x1F50D] @ ascii '' Results for: q'' @ [10, 10] @
          [0x1F4CB] @ ascii '' Type: email'' @ [10] @
          [0x1F50E] @ ascii '' Value: test@example.com'' @ [10] @
          ascii ''  - source: leak1'' @ [10] @
          replicate 30 0x2500 @ [10, 10] @
          [0x1F4CA] @ ascii '' Found 1 results.'' @ [10, 10] @
          [0x1F534] @ ascii '' *Credit by Smart Sunny*'') =
     [0x1F534] @ ascii '' *Credit by Smart Sunny*'' \<and>
   \<not> prefix (ascii ''results for: q'')
       ([0x1F50D] @ ascii '' Results for: q'' @ [10, 10] @
          [0x1F4CB] @ ascii '' Type: email'' @ [10] @
          [0x1F50E] @ ascii '' Value: test@example.com'' @ [10] @
          ascii ''  - source: leak1'' @ [10] @
          replicate 30 0x2500 @ [10, 10] @
          [0x1F4CA] @ ascii '' Found 1 results.'' @ [10, 10] @
          [0x1F534] @ ascii '' *Credit by Smart Sunny*'')"
  by (simp add: format_defs example_defs last_line_def ascii_simps)

section \<open>The API client\<close>

text \<open>
  C3: with the placeholder key \<^verbatim>\<open>YOUR_API_KEY_HERE\<close>, whatever the query and whatever
  the network would answer, \<^verbatim>\<open>call_universal_api\<close> returns the not-configured text and
  posts no request.
\<close>

theorem lookup_sentinel_not_configured:
  "call_universal_api cs post (self\<lparr>api_key := ascii ''YOUR_API_KEY_HERE''\<rparr>) query =
     \<lparr>reply = [0x274C] @ ascii '' API not configured. Use /setapi.'',
      requests = [], log = []\<rparr>"
  by (simp add: call_universal_api_def not_configured_text_def)

text \<open>
  The guard treats the empty key in the same way.
\<close>

lemma lookup_empty_key_not_configured:
  "call_universal_api cs post (self\<lparr>api_key := []\<rparr>) query =
     \<lparr>reply = [0x274C] @ ascii '' API not configured. Use /setapi.'',
      requests = [], log = []\<rparr>"
  by (simp add: call_universal_api_def not_configured_text_def)

text \<open>
  C2 as stated fails: the empty key is not the placeholder, yet against a network that
  answers 401 the reply is the not-configured text and not the invalid-key text, and no
  request is posted.
\<close>

theorem lookup_empty_key_ignores_status:
  "[] \<noteq> ascii ''YOUR_API_KEY_HERE'' \<and>
   call_universal_api no_containers (answers 401) (example_bot\<lparr>api_key := []\<rparr>)
       (ascii ''q'') =
     \<lparr>reply = [0x274C] @ ascii '' API not configured. Use /setapi.'',
      requests = [], log = []\<rparr> \<and>
   reply (call_universal_api no_containers (answers 401) (example_bot\<lparr>api_key := []\<rparr>)
            (ascii ''q'')) \<noteq>
     [0x274C] @ ascii '' Invalid API key.''"
  by (simp add: call_universal_api_def not_configured_text_def ascii_simps)

text \<open>
  C2, as the code has it: with a key that is not empty and not the placeholder (one
  that passes the guard), a response with status 401 gives the invalid-key text, 402
  the quota text and any other status but 200 the text \<^verbatim>\<open>API error: \<close> with the
  status code; an exception of \<^verbatim>\<open>requests.post\<close>, of \<^verbatim>\<open>response.json()\<close> or of the
  formatter on a body of the wrong shape is logged and gives the fixed
  \<^verbatim>\<open>Error contacting API.\<close> text. In every case one request was posted, and both handlers
  that search send exactly one reply, the text returned.
\<close>

theorem lookup_error_replies:
  assumes "configured self"
  shows "(post (api_request self query) = Response 401 body \<longrightarrow>
            call_universal_api cs post self query =
              \<lparr>reply = [0x274C] @ ascii '' Invalid API key.'',
               requests = [api_request self query], log = []\<rparr>) \<and>
         (post (api_request self query) = Response 402 body \<longrightarrow>
            call_universal_api cs post self query =
              \<lparr>reply = [0x274C] @ ascii '' API quota exceeded.'',
               requests = [api_request self query], log = []\<rparr>) \<and>
         (post (api_request self query) = Response status_code body \<and>
          status_code \<noteq> 200 \<and> status_code \<noteq> 401 \<and> status_code \<noteq> 402 \<longrightarrow>
            call_universal_api cs post self query =
              \<lparr>reply = [0x274C] @ ascii '' API error: '' @ str_int status_code,
               requests = [api_request self query], log = []\<rparr>) \<and>
         (post (api_request self query) = PostRaises e \<or>
          post (api_request self query) = Response 200 (Inl e) \<or>
          (post (api_request self query) = Response 200 (Inr data) \<and>
           format_api_response cs self data query = Inl e) \<longrightarrow>
            call_universal_api cs post self query =
              \<lparr>reply = [0x274C] @ ascii '' Error contacting API.'',
               requests = [api_request self query], log = [e]\<rparr>) \<and>
         sent (perform_search cs post self text) =
           [ChatAction (ascii ''typing''),
            Reply (reply (call_universal_api cs post self (strip text))) Plain] \<and>
         sent (handle_message cs post self text) =
           [ChatAction (ascii ''typing''),
            Reply (reply (call_universal_api cs post self (strip text))) Plain]"
  using assms
  by (auto simp: configured_def call_universal_api_def Let_def except_branch_def
        invalid_key_text_def quota_text_def api_error_text_def error_contacting_text_def
        perform_search_def handle_message_def)

text \<open>
  The key \<^verbatim>\<open>k1\<close> against a network that answers 401, 402, 503, times out, or
  answers 200 with the body \<^verbatim>\<open>[]\<close>.
\<close>

theorem lookup_error_replies_witness:
  "configured example_bot \<and>
   call_universal_api no_containers (answers 401) example_bot (ascii ''q'') =
     \<lparr>reply = [0x274C] @ ascii '' Invalid API key.'',
      requests = [api_request example_bot (ascii ''q'')], log = []\<rparr> \<and>
   call_universal_api no_containers (answers 402) example_bot (ascii ''q'') =
     \<lparr>reply = [0x274C] @ ascii '' API quota exceeded.'',
      requests = [api_request example_bot (ascii ''q'')], log = []\<rparr> \<and>
   call_universal_api no_containers (answers 503) example_bot (ascii ''q'') =
     \<lparr>reply = [0x274C] @ ascii '' API error: 503'',
      requests = [api_request example_bot (ascii ''q'')], log = []\<rparr> \<and>
   call_universal_api no_containers (\<lambda>req. PostRaises (RequestException (ascii ''timed out'')))
       example_bot (ascii ''q'') =
     \<lparr>reply = [0x274C] @ ascii '' Error contacting API.'',
      requests = [api_request example_bot (ascii ''q'')],
      log = [RequestException (ascii ''timed out'')]\<rparr> \<and>
   call_universal_api no_containers (\<lambda>req. Response 200 (Inr (JList []))) example_bot
       (ascii ''q'') =
     \<lparr>reply = [0x274C] @ ascii '' Error contacting API.'',
      requests = [api_request example_bot (ascii ''q'')], log = [AttributeError]\<rparr> \<and>
   sent (perform_search no_containers (answers 401) example_bot (ascii ''q'')) =
     [ChatAction (ascii ''typing''), Reply ([0x274C] @ ascii '' Invalid API key.'') Plain]"
proof -
  have c: "configured example_bot"
    by (simp add: configured_def example_bot_def ascii_simps)
  have q: "strip (ascii ''q'') = ascii ''q''"
    by (simp add: strip_def isspace_def ascii_simps)
  have d: "str_int 503 = ascii ''503''"
    by (simp add: str_int_def ascii_simps)
  show ?thesis
    using c
      lookup_error_replies [OF c, of "answers 401" "ascii ''q''" "Inr (JObj [])" no_containers
        401 undefined undefined "ascii ''q''"]
      lookup_error_replies [OF c, of "answers 402" "ascii ''q''" "Inr (JObj [])" no_containers
        402 undefined undefined "ascii ''q''"]
      lookup_error_replies [OF c, of "answers 503" "ascii ''q''" "Inr (JObj [])" no_containers
        503 undefined undefined "ascii ''q''"]
      lookup_error_replies [OF c,
        of "\<lambda>req. PostRaises (RequestException (ascii ''timed out''))" "ascii ''q''"
           "Inr (JObj [])" no_containers 500 "RequestException (ascii ''timed out'')" undefined
           "ascii ''q''"]
      lookup_error_replies [OF c, of "\<lambda>req. Response 200 (Inr (JList []))" "ascii ''q''"
        "Inr (JObj [])" no_containers 500 AttributeError "JList []" "ascii ''q''"]
    by (simp add: answers_def d strip_def isspace_def format_api_response_def ascii_simps)
qed

text \<open>
  C7: with a configured key, a 200 response whose body is a JSON object without the key
  \<^verbatim>\<open>results\<close> gives the text for no results, the same as for \<^verbatim>\<open>"results": []\<close>.
\<close>

theorem lookup_missing_results_key:
  assumes "configured self"
    and "post (api_request self query) = Response 200 (Inr (JObj d))"
    and "map_of d (ascii ''results'') = None"
  shows "call_universal_api cs post self query =
           \<lparr>reply = [0x1F50D] @ ascii '' No results found for: '' @ query,
            requests = [api_request self query], log = []\<rparr> \<and>
         format_api_response cs self (JObj d) query =
           format_api_response cs self (JObj [(ascii ''results'', JList [])]) query"
  using assms
  by (simp add: configured_def call_universal_api_def format_api_response_def dict_get_def
        no_results_text_def)

text \<open>
  The body \<^verbatim>\<open>{}\<close>.
\<close>

theorem lookup_missing_results_key_witness:
  "configured example_bot \<and>
   answers 200 (api_request example_bot (ascii ''q'')) = Response 200 (Inr (JObj [])) \<and>
   map_of [] (ascii ''results'') = (None :: json option) \<and>
   call_universal_api no_containers (answers 200) example_bot (ascii ''q'') =
     \<lparr>reply = [0x1F50D] @ ascii '' No results found for: q'',
      requests = [api_request example_bot (ascii ''q'')], log = []\<rparr>"
proof -
  have c: "configured example_bot"
    by (simp add: configured_def example_bot_def ascii_simps)
  have p: "answers 200 (api_request example_bot (ascii ''q'')) = Response 200 (Inr (JObj []))"
    by (simp add: answers_def)
  have m: "map_of [] (ascii ''results'') = (None :: json option)" by simp
  show ?thesis
    using c p m
      lookup_missing_results_key [of example_bot "answers 200" "ascii ''q''" "[]" no_containers]
    by (simp add: ascii_simps)
qed

section \<open>The conversations\<close>

text \<open>
  Where an update goes, for a session in at most one conversation.
\<close>

lemma route_when_idle:
  "idle sys (session_of update) \<Longrightarrow>
   route_of sys update =
     (case message update of
        Command name t \<Rightarrow>
          if name = ascii ''start'' then Some (Direct Start)
          else if name = ascii ''help'' then Some (Direct Help)
          else if name = ascii ''search'' then Some (InSearchConv Search)
          else if name = ascii ''setapi'' then Some (InApiConv SetupApi)
          else None
      | Text t \<Rightarrow> if t \<noteq> [] then Some (Direct HandleMessage) else None)"
  by (simp add: routing_defs state_defs split: message.splits)

lemma route_when_awaiting_search_only:
  "awaiting_search_only sys (session_of update) \<Longrightarrow>
   route_of sys update =
     (case message update of
        Command name t \<Rightarrow>
          if name = ascii ''start'' then Some (Direct Start)
          else if name = ascii ''help'' then Some (Direct Help)
          else if name = ascii ''cancel'' then Some (InSearchConv Cancel)
          else if name = ascii ''setapi'' then Some (InApiConv SetupApi)
          else None
      | Text t \<Rightarrow> if t \<noteq> [] then Some (InSearchConv PerformSearch) else None)"
  by (simp add: routing_defs state_defs split: message.splits)

lemma route_when_awaiting_api_key_only:
  "awaiting_api_key_only sys (session_of update) \<Longrightarrow>
   route_of sys update =
     (case message update of
        Command name t \<Rightarrow>
          if name = ascii ''start'' then Some (Direct Start)
          else if name = ascii ''help'' then Some (Direct Help)
          else if name = ascii ''search'' then Some (InSearchConv Search)
          else if name = ascii ''cancel'' then Some (InApiConv Cancel)
          else None
      | Text t \<Rightarrow> if t \<noteq> [] then Some (InApiConv SaveApiKey) else None)"
  by (simp add: routing_defs state_defs split: message.splits)

lemma returned_invoke:
  "returned (invoke cs post f self t) =
     (case f of
        Start \<Rightarrow> None | Help \<Rightarrow> None | Search \<Rightarrow> Some SEARCH
      | PerformSearch \<Rightarrow> Some END | HandleMessage \<Rightarrow> None | Cancel \<Rightarrow> Some END
      | SetupApi \<Rightarrow> Some API_SETUP | SaveApiKey \<Rightarrow> Some END)"
  by (cases f) (simp_all add: handler_defs Let_def)

lemma states_after:
  "route_of sys update = Some r \<Longrightarrow>
   search_states (fst (process_update cs post sys update)) =
     (case r of
        InSearchConv f \<Rightarrow>
          update_state (search_states sys) (session_of update)
            (returned (invoke cs post f (bot_obj sys) (message_text (message update))))
      | _ \<Rightarrow> search_states sys) \<and>
   api_states (fst (process_update cs post sys update)) =
     (case r of
        InApiConv f \<Rightarrow>
          update_state (api_states sys) (session_of update)
            (returned (invoke cs post f (bot_obj sys) (message_text (message update))))
      | _ \<Rightarrow> api_states sys)"
  by (cases r) (simp_all add: process_update_def Let_def)

lemma routed_callbacks:
  "route_of sys update = Some (InSearchConv f) \<Longrightarrow> f = Search \<or> f = PerformSearch \<or> f = Cancel"
  "route_of sys update = Some (InApiConv f) \<Longrightarrow> f = SetupApi \<or> f = SaveApiKey \<or> f = Cancel"
  by (auto simp: route_of_def Let_def conv_check_update_def search_conv_def api_conv_def
           split: option.splits if_splits)

text \<open>
  From the start, every session has no state or \<^verbatim>\<open>SEARCH\<close> in the search conversation,
  and no state or \<^verbatim>\<open>API_SETUP\<close> in the key conversation; the two are independent, so
  a session can be in both at once.
\<close>

lemma step_keeps_known_states:
  assumes "\<forall>key. search_states sys key \<in> {None, Some SEARCH} \<and>
                 api_states sys key \<in> {None, Some API_SETUP}"
  shows "search_states (fst (process_update cs post sys update)) key \<in> {None, Some SEARCH} \<and>
         api_states (fst (process_update cs post sys update)) key \<in> {None, Some API_SETUP}"
proof -
  have k: "search_states sys key \<in> {None, Some SEARCH}"
    "api_states sys key \<in> {None, Some API_SETUP}"
    using assms by blast+
  show ?thesis
  proof (cases "route_of sys update")
    case None
    with k show ?thesis by (simp add: process_update_def)
  next
    case (Some r)
    show ?thesis
    proof (cases r)
      case (Direct f)
      with k states_after [OF Some, of cs post] show ?thesis by simp
    next
      case (InSearchConv f)
      with routed_callbacks(1) Some have "f = Search \<or> f = PerformSearch \<or> f = Cancel"
        by blast
      with k states_after [OF Some, of cs post] InSearchConv show ?thesis
        by (auto simp: handler_defs Let_def update_state_def SEARCH_def END_def split: if_splits)
    next
      case (InApiConv f)
      with routed_callbacks(2) Some have "f = SetupApi \<or> f = SaveApiKey \<or> f = Cancel"
        by blast
      with k states_after [OF Some, of cs post] InApiConv show ?thesis
        by (auto simp: handler_defs Let_def update_state_def API_SETUP_def END_def split: if_splits)
    qed
  qed
qed

lemma run_keeps_known_states:
  "\<forall>key. search_states sys key \<in> {None, Some SEARCH} \<and>
         api_states sys key \<in> {None, Some API_SETUP} \<Longrightarrow>
   \<forall>key. search_states (run cs sys evs) key \<in> {None, Some SEARCH} \<and>
         api_states (run cs sys evs) key \<in> {None, Some API_SETUP}"
proof (induction evs arbitrary: sys)
  case Nil
  then show ?case by simp
next
  case (Cons ev evs)
  obtain update post where ev: "ev = (update, post)" by (cases ev)
  show ?case
    unfolding ev run.simps
    by (rule Cons.IH) (intro allI, rule step_keeps_known_states [OF Cons.prems])
qed

lemma reachable_states:
  "search_states (run cs (initial env_API_URL env_API_KEY) evs) key \<in> {None, Some SEARCH} \<and>
   api_states (run cs (initial env_API_URL env_API_KEY) evs) key \<in> {None, Some API_SETUP}"
proof -
  have "\<forall>key. search_states (initial env_API_URL env_API_KEY) key \<in> {None, Some SEARCH} \<and>
              api_states (initial env_API_URL env_API_KEY) key \<in> {None, Some API_SETUP}"
    by (simp add: initial_def)
  from run_keeps_known_states [OF this, of cs evs] show ?thesis by blast
qed

text \<open>
  C8, as the code has it: for a session that is not in the search conversation,
  \<^verbatim>\<open>/search\<close> puts it in state \<^verbatim>\<open>SEARCH\<close> and sends the one prompt; for a session
  already in the search conversation the command is not handled at all: nothing is sent
  and nothing changes.
\<close>

theorem search_command:
  assumes "message update = Command (ascii ''search'') text"
  shows "(search_states sys (session_of update) = None \<longrightarrow>
            process_update cs post sys update =
              (sys\<lparr>search_states := (search_states sys)(session_of update := Some SEARCH)\<rparr>,
               Some \<lparr>bot_after = bot_obj sys, sent = [Reply search_prompt Plain], posted = [],
                     logged = [], returned = Some SEARCH\<rparr>)) \<and>
         (search_states sys (session_of update) \<noteq> None \<longrightarrow>
            process_update cs post sys update = (sys, None))"
  using assms
  by (auto simp: process_update_def route_of_def Let_def conv_check_update_def
        search_conv_def api_conv_def ascii_simps search_def update_state_def SEARCH_def END_def
        split: option.splits)

text \<open>
  The first \<^verbatim>\<open>/search\<close> of a session.
\<close>

theorem search_command_witness:
  "message (says 1 1 (command ''search'')) = Command (ascii ''search'') (ascii ''/search'') \<and>
   search_states (initial None None) (session_of (says 1 1 (command ''search''))) = None \<and>
   process_update no_containers (answers 401) (initial None None) (says 1 1 (command ''search'')) =
     ((initial None None)\<lparr>search_states := (\<lambda>key. None)((1, 1) := Some 0)\<rparr>,
      Some \<lparr>bot_after = bot_obj (initial None None), sent = [Reply search_prompt Plain],
            posted = [], logged = [], returned = Some 0\<rparr>)"
proof -
  have m: "message (says 1 1 (command ''search'')) =
             Command (ascii ''search'') (ascii ''/search'')"
    by (simp add: says_def command_def ascii_simps)
  have i: "search_states (initial None None) (session_of (says 1 1 (command ''search''))) = None"
    by (simp add: initial_def)
  show ?thesis
    using m i search_command [OF m, of "initial None None" no_containers "answers 401"]
    by (simp add: session_of_def says_def SEARCH_def initial_def)
qed

text \<open>
  C8 as stated fails: a second \<^verbatim>\<open>/search\<close> of the same session, which is in state
  \<^verbatim>\<open>SEARCH\<close>, gets no reply.
\<close>

theorem search_command_repeated_is_dropped:
  "process_update no_containers (answers 401)
     (run no_containers (initial None None) [(says 1 1 (command ''search''), answers 401)])
     (says 1 1 (command ''search'')) =
     (run no_containers (initial None None) [(says 1 1 (command ''search''), answers 401)], None) \<and>
   search_states
     (run no_containers (initial None None) [(says 1 1 (command ''search''), answers 401)])
     (1, 1) = Some SEARCH"
  by (simp add: routing_defs handler_defs example_defs)

text \<open>
  C5, as the code has it: for a session in at most one conversation (idle, waiting for
  a query only, or waiting for a key only), after \<^verbatim>\<open>perform_search\<close> (whatever the
  network did), \<^verbatim>\<open>save_api_key\<close>, \<^verbatim>\<open>cancel\<close> or \<^verbatim>\<open>handle_message\<close> has run, the
  session is idle.
\<close>

theorem terminal_handler_returns_to_idle:
  assumes "in_one_state sys (session_of update)"
    and "route_of sys update = Some r"
    and "terminal (route_callback r)"
  shows "idle (fst (process_update cs post sys update)) (session_of update)"
proof -
  consider (idle) "idle sys (session_of update)"
    | (search) "awaiting_search_only sys (session_of update)"
    | (key) "awaiting_api_key_only sys (session_of update)"
    using assms(1) by (auto simp: in_one_state_def)
  then show ?thesis
  proof cases
    case idle
    from route_when_idle [OF idle] assms(2,3) have "r = Direct HandleMessage"
      by (auto split: message.splits if_splits)
    with idle states_after [OF assms(2), of cs post] show ?thesis
      by (simp add: idle_def)
  next
    case search
    from route_when_awaiting_search_only [OF search] assms(2,3)
    have "r = InSearchConv Cancel \<or> r = InSearchConv PerformSearch"
      by (auto split: message.splits if_splits)
    with search states_after [OF assms(2), of cs post] show ?thesis
      by (auto simp: idle_def awaiting_search_only_def handler_defs Let_def update_state_def)
  next
    case key
    from route_when_awaiting_api_key_only [OF key] assms(2,3)
    have "r = InApiConv Cancel \<or> r = InApiConv SaveApiKey"
      by (auto split: message.splits if_splits)
    with key states_after [OF assms(2), of cs post] show ?thesis
      by (auto simp: idle_def awaiting_api_key_only_def handler_defs Let_def update_state_def)
  qed
qed

text \<open>
  A query sent after \<^verbatim>\<open>/search\<close> from the start: the key is still the placeholder,
  so the search ends with the not-configured reply.
\<close>

theorem terminal_handler_returns_to_idle_witness:
  "in_one_state
     (run no_containers (initial None None) [(says 1 1 (command ''search''), answers 401)]) (1, 1) \<and>
   route_of
     (run no_containers (initial None None) [(says 1 1 (command ''search''), answers 401)])
     (says 1 1 (Text (ascii ''q''))) = Some (InSearchConv PerformSearch) \<and>
   idle (fst (process_update no_containers (answers 503)
     (run no_containers (initial None None) [(says 1 1 (command ''search''), answers 401)])
     (says 1 1 (Text (ascii ''q''))))) (1, 1)"
proof -
  let ?sys = "run no_containers (initial None None) [(says 1 1 (command ''search''), answers 401)]"
  let ?u = "says 1 1 (Text (ascii ''q''))"
  have k: "session_of ?u = (1, 1)" by (simp add: session_of_def says_def)
  have h1: "in_one_state ?sys (session_of ?u)"
    by (simp add: routing_defs handler_defs example_defs state_defs)
  have h2: "route_of ?sys ?u = Some (InSearchConv PerformSearch)"
    by (simp add: routing_defs handler_defs example_defs)
  have h3: "terminal (route_callback (InSearchConv PerformSearch))" by simp
  show ?thesis
    using h1 h2 terminal_handler_returns_to_idle [OF h1 h2 h3, of no_containers "answers 503"]
    unfolding k by simp
qed

text \<open>
  C5 as stated fails: after \<^verbatim>\<open>/setapi\<close> and then \<^verbatim>\<open>/search\<close> the session is in both
  conversations; the query it sends next ends the search conversation only, and so does
  \<^verbatim>\<open>/cancel\<close>: the session still waits for an API key.
\<close>

theorem search_leaves_api_conversation_open:
  "route_of
     (run no_containers (initial None None)
        [(says 1 1 (command ''setapi''), answers 401), (says 1 1 (command ''search''), answers 401)])
     (says 1 1 (Text (ascii ''q''))) = Some (InSearchConv PerformSearch) \<and>
   api_states (fst (process_update no_containers (answers 401)
     (run no_containers (initial None None)
        [(says 1 1 (command ''setapi''), answers 401), (says 1 1 (command ''search''), answers 401)])
     (says 1 1 (Text (ascii ''q''))))) (1, 1) = Some API_SETUP \<and>
   route_of
     (run no_containers (initial None None)
        [(says 1 1 (command ''setapi''), answers 401), (says 1 1 (command ''search''), answers 401)])
     (says 1 1 (command ''cancel'')) = Some (InSearchConv Cancel) \<and>
   api_states (fst (process_update no_containers (answers 401)
     (run no_containers (initial None None)
        [(says 1 1 (command ''setapi''), answers 401), (says 1 1 (command ''search''), answers 401)])
     (says 1 1 (command ''cancel'')))) (1, 1) = Some API_SETUP"
  by (simp add: routing_defs handler_defs example_defs)

text \<open>
  C1, as the code has it: for a session that waits for a key only, a non-empty text
  that is not a command becomes, stripped, the \<^verbatim>\<open>api_key\<close> of the one bot object, which
  every session's lookups read; one confirmation is sent; the session is idle afterwards
  and no other session's conversation state changes.
\<close>

theorem save_api_key_step:
  assumes "awaiting_api_key_only sys (session_of update)"
    and "message update = Text text"
    and "text \<noteq> []"
  shows "process_update cs post sys update =
           (sys\<lparr>bot_obj := (bot_obj sys)\<lparr>api_key := strip text\<rparr>,
                api_states := (api_states sys)(session_of update := None)\<rparr>,
            Some \<lparr>bot_after = (bot_obj sys)\<lparr>api_key := strip text\<rparr>,
                  sent = [Reply ([0x2705] @ ascii '' API key updated successfully!'') Plain],
                  posted = [], logged = [], returned = Some END\<rparr>)"
  using assms
  by (simp add: routing_defs handler_defs state_defs key_updated_text_def)

text \<open>
  The text \<^verbatim>\<open>" k1 "\<close> after \<^verbatim>\<open>/setapi\<close>.
\<close>

theorem save_api_key_step_witness:
  "awaiting_api_key_only
     (run no_containers (initial None None) [(says 1 1 (command ''setapi''), answers 401)]) (1, 1) \<and>
   process_update no_containers (answers 401)
     (run no_containers (initial None None) [(says 1 1 (command ''setapi''), answers 401)])
     (says 1 1 (Text (ascii '' k1 ''))) =
     (\<lparr>bot_obj = \<lparr>api_url = ascii ''https://your-universal-api.com/search'',
                   api_key = ascii ''k1''\<rparr>,
       search_states = (\<lambda>key. None), api_states = (\<lambda>key. None)\<rparr>,
      Some \<lparr>bot_after = \<lparr>api_url = ascii ''https://your-universal-api.com/search'',
                         api_key = ascii ''k1''\<rparr>,
            sent = [Reply ([0x2705] @ ascii '' API key updated successfully!'') Plain],
            posted = [], logged = [], returned = Some (- 1)\<rparr>)"
proof -
  let ?sys = "run no_containers (initial None None) [(says 1 1 (command ''setapi''), answers 401)]"
  let ?u = "says 1 1 (Text (ascii '' k1 ''))"
  have s: "?sys = \<lparr>bot_obj = \<lparr>api_url = ascii ''https://your-universal-api.com/search'',
                               api_key = ascii ''YOUR_API_KEY_HERE''\<rparr>,
                   search_states = (\<lambda>key. None),
                   api_states = (\<lambda>key. None)((1, 1) := Some 1)\<rparr>"
    by (simp add: routing_defs handler_defs example_defs)
  have h1: "awaiting_api_key_only ?sys (session_of ?u)"
    unfolding s by (simp add: state_defs session_of_def says_def API_SETUP_def)
  have h2: "message ?u = Text (ascii '' k1 '')" by (simp add: says_def)
  have h3: "ascii '' k1 '' \<noteq> []" by (simp add: ascii_simps)
  have k: "strip (ascii '' k1 '') = ascii ''k1''"
    by (simp add: strip_def isspace_def ascii_simps)
  show ?thesis
    using h1 save_api_key_step [OF h1 h2 h3, of no_containers "answers 401"]
    unfolding s k
    by (simp add: session_of_def says_def END_def)
qed

text \<open>
  C1 as stated fails: the key does not stay with the session that saved it. Before
  session (1, 1) saves \<^verbatim>\<open>k1\<close>, a query of session (2, 2) is answered with the
  not-configured text and nothing is posted; afterwards the same query of session (2, 2)
  is posted with \<^verbatim>\<open>Authorization: Bearer k1\<close>.
\<close>

theorem save_api_key_changes_other_sessions:
  "snd (process_update no_containers (answers 401) (initial None None)
          (says 2 2 (Text (ascii ''q'')))) =
     Some \<lparr>bot_after = \<lparr>api_url = ascii ''https://your-universal-api.com/search'',
                        api_key = ascii ''YOUR_API_KEY_HERE''\<rparr>,
           sent = [ChatAction (ascii ''typing''),
                   Reply ([0x274C] @ ascii '' API not configured. Use /setapi.'') Plain],
           posted = [], logged = [], returned = None\<rparr> \<and>
   snd (process_update no_containers (answers 401)
          (run no_containers (initial None None)
             [(says 1 1 (command ''setapi''), answers 401),
              (says 1 1 (Text (ascii '' k1 '')), answers 401)])
          (says 2 2 (Text (ascii ''q'')))) =
     Some \<lparr>bot_after = \<lparr>api_url = ascii ''https://your-universal-api.com/search'',
                        api_key = ascii ''k1''\<rparr>,
           sent = [ChatAction (ascii ''typing''),
                   Reply ([0x274C] @ ascii '' Invalid API key.'') Plain],
           posted = [\<lparr>url = ascii ''https://your-universal-api.com/search'',
                      authorization = ascii ''Bearer k1'',
                      content_type = ascii ''application/json'',
                      payload_query = ascii ''q'', timeout = 30\<rparr>],
           logged = [], returned = None\<rparr>"
  by (simp add: routing_defs handler_defs example_defs api_defs)

text \<open>
  The bot object changes in \<^verbatim>\<open>save_api_key\<close> only.
\<close>

lemma bot_unchanged:
  "route_of sys update \<noteq> Some (InApiConv SaveApiKey) \<Longrightarrow>
   bot_obj (fst (process_update cs post sys update)) = bot_obj sys"
  by (cases "message update")
     (auto simp: routing_defs handler_defs split: option.splits if_splits)

lemma bot_run_unchanged:
  "no_key_saved cs sys evs \<Longrightarrow> bot_obj (run cs sys evs) = bot_obj sys"
  by (induction evs arbitrary: sys) (auto simp: bot_unchanged)

lemma bot_after_save:
  "route_of sys update = Some (InApiConv SaveApiKey) \<Longrightarrow> message update = Text text \<Longrightarrow>
   bot_obj (fst (process_update cs post sys update)) = (bot_obj sys)\<lparr>api_key := strip text\<rparr>"
  by (simp add: process_update_def Let_def save_api_key_def)

lemma lookup_outcome:
  "route_of sys update = Some r \<Longrightarrow>
   route_callback r = PerformSearch \<or> route_callback r = HandleMessage \<Longrightarrow>
   snd (process_update cs post sys update) =
     Some \<lparr>bot_after = bot_obj sys,
           sent = [ChatAction (ascii ''typing''),
                   Reply (reply (call_universal_api cs post (bot_obj sys)
                                  (strip (message_text (message update))))) Plain],
           posted = requests (call_universal_api cs post (bot_obj sys)
                                (strip (message_text (message update)))),
           logged = log (call_universal_api cs post (bot_obj sys)
                           (strip (message_text (message update)))),
           returned = (if route_callback r = PerformSearch then Some END else None)\<rparr>"
  by (auto simp: process_update_def Let_def perform_search_def handle_message_def)

lemma requests_of_call:
  "requests (call_universal_api cs post self query) =
     (if api_key self = [] \<or> api_key self = ascii ''YOUR_API_KEY_HERE'' then []
      else [api_request self query])"
  by (auto simp: call_universal_api_def Let_def except_branch_def
           split: http_outcome.splits sum.splits)

text \<open>
  C10: there is one \<^verbatim>\<open>api_key\<close>, that of the bot object. Once an update of some
  session was routed to \<^verbatim>\<open>save_api_key\<close> with text \<open>text\<close>, and as long as no later
  update is, a lookup for an update of any session (routed to \<^verbatim>\<open>perform_search\<close> or to
  \<^verbatim>\<open>handle_message\<close>) is made with the key \<open>strip text\<close>: the reply is the one
  \<^verbatim>\<open>call_universal_api\<close> gives for that key, and the request posted carries
  \<^verbatim>\<open>Bearer\<close> and that key (nothing is posted when it is empty or the placeholder).
\<close>

theorem api_key_shared_by_all_sessions:
  assumes "route_of sys update = Some (InApiConv SaveApiKey)"
    and "message update = Text text"
    and "no_key_saved cs (fst (process_update cs post sys update)) later"
    and "sys' = run cs (fst (process_update cs post sys update)) later"
    and "route_of sys' update' = Some r"
    and "route_callback r = PerformSearch \<or> route_callback r = HandleMessage"
  shows "bot_obj sys' = (bot_obj sys)\<lparr>api_key := strip text\<rparr> \<and>
         map_option sent (snd (process_update cs post' sys' update')) =
           Some [ChatAction (ascii ''typing''),
                 Reply (reply (call_universal_api cs post' ((bot_obj sys)\<lparr>api_key := strip text\<rparr>)
                                (strip (message_text (message update'))))) Plain] \<and>
         map_option posted (snd (process_update cs post' sys' update')) =
           Some (if strip text = [] \<or> strip text = ascii ''YOUR_API_KEY_HERE'' then []
                 else [\<lparr>url = api_url (bot_obj sys),
                        authorization = ascii ''Bearer '' @ strip text,
                        content_type = ascii ''application/json'',
                        payload_query = strip (message_text (message update')),
                        timeout = 30\<rparr>])"
proof -
  have b: "bot_obj sys' = (bot_obj sys)\<lparr>api_key := strip text\<rparr>"
    using assms(1-4) by (simp add: bot_run_unchanged bot_after_save)
  show ?thesis
    using b lookup_outcome [OF assms(5) assms(6), of cs post']
    by (simp add: requests_of_call api_request_def)
qed

text \<open>
  Session (1, 1) saves \<^verbatim>\<open>k1\<close>; the search of session (2, 2) is posted with it.
\<close>

theorem api_key_shared_by_all_sessions_witness:
  "route_of
     (run no_containers (initial None None) [(says 1 1 (command ''setapi''), answers 401)])
     (says 1 1 (Text (ascii '' k1 ''))) = Some (InApiConv SaveApiKey) \<and>
   map_option posted
     (snd (process_update no_containers (answers 401)
        (run no_containers (initial None None)
           [(says 1 1 (command ''setapi''), answers 401),
            (says 1 1 (Text (ascii '' k1 '')), answers 401),
            (says 2 2 (command ''search''), answers 401)])
        (says 2 2 (Text (ascii ''q''))))) =
     Some [\<lparr>url = ascii ''https://your-universal-api.com/search'',
            authorization = ascii ''Bearer k1'',
            content_type = ascii ''application/json'',
            payload_query = ascii ''q'', timeout = 30\<rparr>]"
proof -
  let ?sys = "run no_containers (initial None None) [(says 1 1 (command ''setapi''), answers 401)]"
  let ?u = "says 1 1 (Text (ascii '' k1 ''))"
  let ?later = "[(says 2 2 (command ''search''), answers 401)]"
  let ?sys' = "run no_containers (fst (process_update no_containers (answers 401) ?sys ?u)) ?later"
  let ?u' = "says 2 2 (Text (ascii ''q''))"
  have r: "run no_containers (initial None None)
             [(says 1 1 (command ''setapi''), answers 401),
              (says 1 1 (Text (ascii '' k1 '')), answers 401),
              (says 2 2 (command ''search''), answers 401)] = ?sys'"
    by simp
  have h1: "route_of ?sys ?u = Some (InApiConv SaveApiKey)"
    by (simp add: routing_defs handler_defs example_defs)
  have h2: "message ?u = Text (ascii '' k1 '')" by (simp add: says_def)
  have h3: "no_key_saved no_containers
              (fst (process_update no_containers (answers 401) ?sys ?u)) ?later"
    by (simp add: routing_defs handler_defs example_defs)
  have h5: "route_of ?sys' ?u' = Some (InSearchConv PerformSearch)"
    by (simp add: routing_defs handler_defs example_defs)
  have h6: "route_callback (InSearchConv PerformSearch) = PerformSearch \<or>
            route_callback (InSearchConv PerformSearch) = HandleMessage"
    by simp
  have k: "strip (ascii '' k1 '') = ascii ''k1''" "strip (ascii ''q'') = ascii ''q''"
    by (simp_all add: strip_def isspace_def ascii_simps)
  have u: "api_url (bot_obj ?sys) = ascii ''https://your-universal-api.com/search''"
    by (simp add: routing_defs handler_defs example_defs)
  have m: "message_text (message ?u') = ascii ''q''" by (simp add: says_def)
  have c: "\<not> (ascii ''k1'' = [] \<or> ascii ''k1'' = ascii ''YOUR_API_KEY_HERE'')"
    by (simp add: ascii_simps)
  have b: "ascii ''Bearer '' @ ascii ''k1'' = ascii ''Bearer k1''"
    by (simp add: ascii_simps)
  have "map_option posted (snd (process_update no_containers (answers 401) ?sys' ?u')) =
          Some (if strip (ascii '' k1 '') = [] \<or> strip (ascii '' k1 '') = ascii ''YOUR_API_KEY_HERE''
                then []
                else [\<lparr>url = api_url (bot_obj ?sys),
                       authorization = ascii ''Bearer '' @ strip (ascii '' k1 ''),
                       content_type = ascii ''application/json'',
                       payload_query = strip (message_text (message ?u')),
                       timeout = 30\<rparr>])"
    using api_key_shared_by_all_sessions [OF h1 h2 h3 refl h5 h6, of "answers 401"] by blast
  then have "map_option posted (snd (process_update no_containers (answers 401) ?sys' ?u')) =
          Some [\<lparr>url = ascii ''https://your-universal-api.com/search'',
                 authorization = ascii ''Bearer k1'',
                 content_type = ascii ''application/json'',
                 payload_query = ascii ''q'', timeout = 30\<rparr>]"
    unfolding m k u b using c by (simp only: if_False)
  with h1 show ?thesis
    unfolding r by (rule conjI)
qed

end
